theory Spec2Isabelle
  imports Complex_Main "HOL-Library.Finite_Map"
begin

section \<open>JavaScript values and objects\<close>

text \<open>
  The client is TypeScript: its option bags, payloads and property bags are plain
  JavaScript objects that the code combines with object spread and tests with
  truthiness (\<^verbatim>\<open>!x\<close>, \<^verbatim>\<open>a || b\<close>). An object is therefore a finite map from
  property names to values, a spread \<^verbatim>\<open>{...a, ...b}\<close> is \<open>a ++\<^sub>f b\<close>, and a property
  that is missing reads as \<^verbatim>\<open>undefined\<close>. A property can also be present with the
  value \<^verbatim>\<open>undefined\<close>: a spread copies it, a read does not tell it from a missing one.

  A number is a double. \<open>Num q\<close> is the double that is exactly the rational \<open>q\<close> (every
  finite double is a rational), \<open>NegZero\<close> is \<^verbatim>\<open>-0\<close>, and \<open>Inexact i\<close> stands for the
  double that the platform gives for an integer \<open>i\<close> beyond \<open>2^53\<close> in magnitude: the
  nearest double, \<^verbatim>\<open>Infinity\<close> or \<^verbatim>\<open>-Infinity\<close> when \<open>i\<close> is out of range. The model
  keeps the integer and does not compute that double. The client never computes
  with numbers, it only carries and tests them.
\<close>

datatype jsnum = NaN | Num rat | NegZero | Inexact int

datatype jsval =
    JUndefined
  | JNull
  | JBool bool
  | JNum jsnum
  | JStr string
  | JDate int
  | JArr "jsval list"
  | JObj "(string, jsval) fmap"

type_synonym obj = "(string, jsval) fmap"

text \<open>Truthiness, as \<^verbatim>\<open>!x\<close> and \<^verbatim>\<open>||\<close> see it.\<close>

fun truthy :: "jsval \<Rightarrow> bool" where
  "truthy JUndefined = False"
| "truthy JNull = False"
| "truthy (JBool b) = b"
| "truthy (JNum NaN) = False"
| "truthy (JNum (Num q)) = (q \<noteq> 0)"
| "truthy (JNum NegZero) = False"
| "truthy (JNum (Inexact i)) = (i \<noteq> 0)"
| "truthy (JStr s) = (s \<noteq> [])"
| "truthy (JDate t) = True"
| "truthy (JArr xs) = True"
| "truthy (JObj m) = True"

text \<open>\<^verbatim>\<open>a || b\<close>\<close>

definition js_or :: "jsval \<Rightarrow> jsval \<Rightarrow> jsval" where
  "js_or a b = (if truthy a then a else b)"

text \<open>\<^verbatim>\<open>o.k\<close>\<close>

definition js_get :: "obj \<Rightarrow> string \<Rightarrow> jsval" where
  "js_get m k = (case fmlookup m k of None \<Rightarrow> JUndefined | Some v \<Rightarrow> v)"

text \<open>Decimal digits of a natural number, for template strings and array indices.\<close>

definition digit_char :: "nat \<Rightarrow> char" where
  "digit_char d = ''0123456789'' ! d"

function show_nat :: "nat \<Rightarrow> string" where
  "show_nat n = (if n < 10 then [digit_char n] else show_nat (n div 10) @ [digit_char (n mod 10)])"
  by pat_completeness auto
termination
  by (relation "measure id") auto

declare show_nat.simps [simp del]

text \<open>
  The own enumerable properties that \<^verbatim>\<open>{...v}\<close> copies: those of an object, the
  indexed elements of an array or of a string, none for any other value.
\<close>

definition indexed :: "jsval list \<Rightarrow> obj" where
  "indexed xs = fmap_of_list (map (\<lambda>i. (show_nat i, xs ! i)) [0..<length xs])"

fun own_props :: "jsval \<Rightarrow> obj" where
  "own_props (JObj m) = m"
| "own_props (JArr xs) = indexed xs"
| "own_props (JStr s) = indexed (map (\<lambda>c. JStr [c]) s)"
| "own_props v = fmempty"

text \<open>
  \<^verbatim>\<open>parseInt(s, 10)\<close>: leading white space is skipped, then an optional sign, then
  the longest run of decimal digits is read; with no digit the result is \<^verbatim>\<open>NaN\<close>.
  Whatever follows the digits is ignored. The result is the double for the signed
  integer read: the integer itself up to \<open>2^53 = 9007199254740992\<close> in magnitude
  (every such integer is a double), \<^verbatim>\<open>-0\<close> for a negative zero, and beyond \<open>2^53\<close> the
  double the platform rounds the integer to.
\<close>

definition number_of_digits :: "bool \<Rightarrow> nat \<Rightarrow> jsnum" where
  "number_of_digits neg n =
     (if n = 0 then (if neg then NegZero else Num 0)
      else if n \<le> 9007199254740992 then Num (of_int (if neg then - int n else int n))
      else Inexact (if neg then - int n else int n))"

definition is_js_space :: "char \<Rightarrow> bool" where
  "is_js_space c = (c \<in> set [CHR 0x09, CHR 0x0A, CHR 0x0B, CHR 0x0C, CHR 0x0D, CHR 0x20, CHR 0xA0])"

definition digit_value :: "char \<Rightarrow> nat option" where
  "digit_value c = map_of (zip ''0123456789'' [0, 1, 2, 3, 4, 5, 6, 7, 8, 9]) c"

definition is_digit :: "char \<Rightarrow> bool" where
  "is_digit c = (digit_value c \<noteq> None)"

definition digits_value :: "string \<Rightarrow> nat" where
  "digits_value ds = foldl (\<lambda>a c. 10 * a + (case digit_value c of Some d \<Rightarrow> d | None \<Rightarrow> 0)) 0 ds"

definition parseInt10 :: "string \<Rightarrow> jsnum" where
  "parseInt10 s =
     (let t = dropWhile is_js_space s;
          neg = (case t of c # r \<Rightarrow> c = CHR ''-'' | [] \<Rightarrow> False);
          u = (case t of c # r \<Rightarrow> if c = CHR ''-'' \<or> c = CHR ''+'' then r else t | [] \<Rightarrow> []);
          ds = takeWhile is_digit u
      in if ds = [] then NaN else number_of_digits neg (digits_value ds))"

section \<open>The error taxonomy (errors.ts)\<close>

text \<open>
  What the platform can throw at the client: an instance of \<^verbatim>\<open>Error\<close> (with its
  \<^verbatim>\<open>name\<close> and \<^verbatim>\<open>message\<close>, and whether it is an instance of \<^verbatim>\<open>TypeError\<close>), or any
  other value.
\<close>

datatype js_class = PlainError | TypeErrorClass

datatype js_exn = JsError js_class string string | JsNonError jsval

text \<open>
  The part of a fetch \<^verbatim>\<open>Response\<close> that the client reads: \<^verbatim>\<open>ok\<close>, \<^verbatim>\<open>status\<close>,
  \<^verbatim>\<open>headers.get(name)\<close> (\<open>None\<close> is \<^verbatim>\<open>null\<close>), and what awaiting \<^verbatim>\<open>json()\<close> and, after
  \<^verbatim>\<open>json()\<close> has rejected, \<^verbatim>\<open>text()\<close> gives.
\<close>

record response =
  ok :: bool
  status :: nat
  headers_get :: "string \<Rightarrow> string option"
  json_result :: "js_exn + jsval"
  text_result :: "js_exn + string"

text \<open>
  The error classes, each with the arguments of its constructor; \<open>Other\<close> is a thrown
  value that is not one of the SDK's errors.
\<close>

datatype thrown =
    ConfigurationError string "string option"
  | ValidationError string "string option" jsval
  | ApiError string nat response jsval
  | TimeoutError jsval
  | RateLimitError string jsval
  | NetworkError string js_exn
  | Other js_exn

text \<open>The fields the constructors compute: \<^verbatim>\<open>code\<close>, \<^verbatim>\<open>statusCode\<close>, \<^verbatim>\<open>name\<close>.\<close>

fun error_code :: "thrown \<Rightarrow> string option" where
  "error_code (ConfigurationError m f) = Some ''CONFIGURATION_ERROR''"
| "error_code (ValidationError m f v) = Some ''VALIDATION_ERROR''"
| "error_code (ApiError m s r b) = Some ''API_ERROR''"
| "error_code (TimeoutError t) = Some ''TIMEOUT_ERROR''"
| "error_code (RateLimitError m ra) = Some ''RATE_LIMIT_ERROR''"
| "error_code (NetworkError m e) = Some ''NETWORK_ERROR''"
| "error_code (Other e) = None"

fun error_statusCode :: "thrown \<Rightarrow> nat option" where
  "error_statusCode (ApiError m s r b) = Some s"
| "error_statusCode (RateLimitError m ra) = Some 429"
| "error_statusCode e = None"

fun error_name :: "thrown \<Rightarrow> string option" where
  "error_name (ConfigurationError m f) = Some ''ConfigurationError''"
| "error_name (ValidationError m f v) = Some ''ValidationError''"
| "error_name (ApiError m s r b) = Some ''ApiError''"
| "error_name (TimeoutError t) = Some ''TimeoutError''"
| "error_name (RateLimitError m ra) = Some ''RateLimitError''"
| "error_name (NetworkError m e) = Some ''NetworkError''"
| "error_name (Other (JsError c n m)) = Some n"
| "error_name (Other (JsNonError v)) = None"

text \<open>The message a \<^verbatim>\<open>ConfigurationError\<close> ends up with: it names the field.\<close>

definition configuration_message :: "string \<Rightarrow> string option \<Rightarrow> string" where
  "configuration_message m field =
     (case field of
        Some f \<Rightarrow> if f \<noteq> [] then m @ '': '' @ [CHR 0x27] @ f @ [CHR 0x27] @ '' is required'' else m
      | None \<Rightarrow> m)"

text \<open>The type guards.\<close>

fun isApiError :: "thrown \<Rightarrow> bool" where
  "isApiError (ApiError m s r b) = True"
| "isApiError e = False"

fun isValidationError :: "thrown \<Rightarrow> bool" where
  "isValidationError (ValidationError m f v) = True"
| "isValidationError e = False"

fun isConfigurationError :: "thrown \<Rightarrow> bool" where
  "isConfigurationError (ConfigurationError m f) = True"
| "isConfigurationError e = False"

fun isTimeoutError :: "thrown \<Rightarrow> bool" where
  "isTimeoutError (TimeoutError t) = True"
| "isTimeoutError e = False"

fun isRateLimitError :: "thrown \<Rightarrow> bool" where
  "isRateLimitError (RateLimitError m ra) = True"
| "isRateLimitError e = False"

fun isNetworkError :: "thrown \<Rightarrow> bool" where
  "isNetworkError (NetworkError m e) = True"
| "isNetworkError e = False"

section \<open>The network, the timer and the client\<close>

text \<open>
  A request as \<^verbatim>\<open>fetch\<close> receives it. The URL is the template \<^verbatim>\<open>`${hostUrl}${path}`\<close>,
  kept as its two parts; the body is the value handed to \<^verbatim>\<open>JSON.stringify\<close>.
\<close>

record request =
  req_host :: jsval
  req_path :: string
  req_method :: string
  req_headers :: "(string \<times> jsval) list"
  req_body :: jsval

text \<open>
  What happens to a request while the cancellation timer runs: a response arrives
  first, or the timer fires first, or the transport fails first. The world decides;
  it also holds \<^verbatim>\<open>process.version\<close> and \<^verbatim>\<open>process.env\<close>.
\<close>

datatype fetch_outcome = Resolves response | TimerFires | Rejects js_exn

record world =
  network :: "request \<Rightarrow> fetch_outcome"
  process_version :: "string option"
  process_env :: "string \<Rightarrow> string option"

text \<open>The effects of a call, in order.\<close>

datatype effect = SetTimeout jsval | Fetch request | Abort | ClearTimeout

record client =
  options :: obj
  properties :: obj
  deploymentInfo :: obj

text \<open>
  An asynchronous method returns the response or throws; the model also returns the
  client after the call and the effects of the call.
\<close>

type_synonym call = "(thrown + response) \<times> client \<times> effect list"

text \<open>
  When the timer fires first its callback aborts the controller, and \<^verbatim>\<open>fetch\<close>
  rejects with the \<^verbatim>\<open>AbortError\<close> of the signal.
\<close>

definition abort_error :: js_exn where
  "abort_error = JsError PlainError ''AbortError'' ''This operation was aborted''"

definition fetch :: "world \<Rightarrow> request \<Rightarrow> (js_exn + response) \<times> effect list" where
  "fetch w req =
     (case network w req of
        Resolves r \<Rightarrow> (Inr r, [Fetch req])
      | TimerFires \<Rightarrow> (Inl abort_error, [Fetch req, Abort])
      | Rejects e \<Rightarrow> (Inl e, [Fetch req]))"

text \<open>The requests that reached the network during a call.\<close>

fun requests :: "effect list \<Rightarrow> request list" where
  "requests [] = []"
| "requests (Fetch r # es) = r # requests es"
| "requests (e # es) = requests es"

section \<open>Construction and configuration (index.ts)\<close>

definition first_env :: "(string \<Rightarrow> string option) \<Rightarrow> string list \<Rightarrow> jsval" where
  "first_env env names =
     foldr (\<lambda>n rest. js_or (case env n of Some v \<Rightarrow> JStr v | None \<Rightarrow> JUndefined) rest) names JUndefined"

definition detectDeploymentInfo :: "world \<Rightarrow> obj" where
  "detectDeploymentInfo w =
     (let env = process_env w in
      fmap_of_list
        [(''deployId'', first_env env [''VERCEL_DEPLOYMENT_ID'', ''DEPLOY_ID'', ''CF_PAGES_COMMIT_SHA'']),
         (''gitSha'', first_env env [''VERCEL_GIT_COMMIT_SHA'', ''COMMIT_REF'', ''CF_PAGES_COMMIT_SHA'', ''GITHUB_SHA'']),
         (''gitBranch'', first_env env [''VERCEL_GIT_COMMIT_REF'', ''BRANCH'', ''CF_PAGES_BRANCH'', ''GITHUB_REF_NAME'']),
         (''deployUrl'',
            (case env ''VERCEL_URL'' of
               Some v \<Rightarrow> if v \<noteq> [] then JStr (''https://'' @ v) else first_env env [''DEPLOY_URL'', ''CF_PAGES_URL'']
             | None \<Rightarrow> first_env env [''DEPLOY_URL'', ''CF_PAGES_URL'']))])"

definition getVersion :: "world \<Rightarrow> string" where
  "getVersion w = (case process_version w of Some v \<Rightarrow> if v \<noteq> [] then v else ''unknown'' | None \<Rightarrow> ''unknown'')"

definition new_Entrolytics :: "world \<Rightarrow> obj \<Rightarrow> client" where
  "new_Entrolytics w opts =
     (let detectedDeployment = detectDeploymentInfo w in
      \<lparr>options =
         fmap_of_list
           [(''timeout'', JNum (Num 10000)),
            (''endpoint'', JStr ''standard''),
            (''deployId'', js_get detectedDeployment ''deployId''),
            (''gitSha'', js_get detectedDeployment ''gitSha''),
            (''gitBranch'', js_get detectedDeployment ''gitBranch'')] ++\<^sub>f opts,
       properties = fmempty,
       deploymentInfo = detectedDeployment\<rparr>)"

definition init :: "client \<Rightarrow> obj \<Rightarrow> client" where
  "init c opts = c\<lparr>options := options c ++\<^sub>f opts\<rparr>"

definition getEndpointPath :: "client \<Rightarrow> string" where
  "getEndpointPath c =
     (let endpoint = js_get (options c) ''endpoint'' in
      if endpoint = JStr ''edge'' then ''/api/send-edge''
      else if endpoint = JStr ''native'' then ''/api/send-native''
      else ''/api/send'')"

section \<open>Dispatch: send\<close>

datatype SendType = Event | Identify

fun send_type_name :: "SendType \<Rightarrow> string" where
  "send_type_name Event = ''event''"
| "send_type_name Identify = ''identify''"

definition hostUrl_required :: thrown where
  "hostUrl_required =
     ConfigurationError ''hostUrl is required. Call init() with hostUrl first.'' (Some ''hostUrl'')"

definition websiteId_required :: thrown where
  "websiteId_required =
     ConfigurationError ''websiteId is required. Call init() with websiteId first.'' (Some ''websiteId'')"

definition http_error_message :: "nat \<Rightarrow> string" where
  "http_error_message s = ''HTTP error! status: '' @ show_nat s"

text \<open>
  The body of the \<^verbatim>\<open>try\<close> block once \<^verbatim>\<open>fetch\<close> has resolved. A rejection of
  \<^verbatim>\<open>text()\<close> is not caught inside the block.
\<close>

definition send_check :: "response \<Rightarrow> thrown + response" where
  "send_check r =
     (if \<not> ok r then
        if status r = 429 then
          (let retryAfter = headers_get r ''Retry-After'' in
           Inl (RateLimitError ''Rate limit exceeded''
                  (case retryAfter of
                     Some h \<Rightarrow> if h \<noteq> [] then JNum (parseInt10 h) else JUndefined
                   | None \<Rightarrow> JUndefined)))
        else
          (case json_result r of
             Inr v \<Rightarrow> Inl (ApiError (http_error_message (status r)) (status r) r v)
           | Inl x \<Rightarrow>
               (case text_result r of
                  Inr t \<Rightarrow> Inl (ApiError (http_error_message (status r)) (status r) r (JStr t))
                | Inl e \<Rightarrow> Inl (Other e)))
      else Inr r)"

text \<open>The \<^verbatim>\<open>catch\<close> clause: what is thrown instead of the error caught.\<close>

fun send_catch :: "jsval \<Rightarrow> thrown \<Rightarrow> thrown" where
  "send_catch timeout (ConfigurationError m f) = ConfigurationError m f"
| "send_catch timeout (ApiError m s r b) = ApiError m s r b"
| "send_catch timeout (RateLimitError m ra) = RateLimitError m ra"
| "send_catch timeout (Other (JsError cls name msg)) =
     (if name = ''AbortError'' then TimeoutError timeout
      else if cls = TypeErrorClass then
        NetworkError (''Network request failed: '' @ msg) (JsError cls name msg)
      else Other (JsError cls name msg))"
| "send_catch timeout error = error"

text \<open>
  The destructuring \<^verbatim>\<open>const { hostUrl, userAgent, timeout = 10000 } = this.options\<close>
  gives \<^verbatim>\<open>timeout\<close> its default only when the option is \<^verbatim>\<open>undefined\<close>.
\<close>

definition send_timeout :: "client \<Rightarrow> jsval" where
  "send_timeout c =
     (if js_get (options c) ''timeout'' = JUndefined then JNum (Num 10000)
      else js_get (options c) ''timeout'')"

text \<open>The arguments of \<^verbatim>\<open>fetch\<close> in \<^verbatim>\<open>send\<close>.\<close>

definition send_request :: "world \<Rightarrow> client \<Rightarrow> obj \<Rightarrow> SendType \<Rightarrow> request" where
  "send_request w c payload type =
     (let hostUrl = js_get (options c) ''hostUrl'';
          userAgent = js_get (options c) ''userAgent'';
          endpointPath = getEndpointPath c
      in \<lparr>req_host = hostUrl, req_path = endpointPath, req_method = ''POST'',
          req_headers =
            [(''Content-Type'', JStr ''application/json''),
             (''User-Agent'', js_or userAgent (JStr (''Mozilla/5.0 EntrolyticsNG/'' @ getVersion w)))],
          req_body =
            JObj (fmap_of_list [(''type'', JStr (send_type_name type)), (''payload'', JObj payload)])\<rparr>)"

definition send :: "world \<Rightarrow> client \<Rightarrow> obj \<Rightarrow> SendType \<Rightarrow> call" where
  "send w c payload type =
     (let hostUrl = js_get (options c) ''hostUrl'';
          timeout = send_timeout c
      in
      if \<not> truthy hostUrl then (Inl hostUrl_required, c, [])
      else
        (case fetch w (send_request w c payload type) of
           (res, fx) \<Rightarrow>
             (let tried = (case res of Inl e \<Rightarrow> Inl (Other e) | Inr r \<Rightarrow> send_check r);
                  result = (case tried of Inl e \<Rightarrow> Inl (send_catch timeout e) | Inr r \<Rightarrow> Inr r)
              in (result, c, [SetTimeout timeout] @ fx @ [ClearTimeout]))))"

section \<open>Typed send operations\<close>

definition trackPageView :: "world \<Rightarrow> client \<Rightarrow> obj \<Rightarrow> call" where
  "trackPageView w c opts =
     (let websiteId = js_get (options c) ''websiteId'' in
      if \<not> truthy websiteId then (Inl websiteId_required, c, [])
      else if \<not> truthy (js_get opts ''url'') then
        (Inl (ValidationError ''url is required for page view tracking'' (Some ''url'') JUndefined), c, [])
      else send w c (fmap_of_list [(''website'', websiteId)] ++\<^sub>f opts) Event)"

definition trackEvent :: "world \<Rightarrow> client \<Rightarrow> obj \<Rightarrow> call" where
  "trackEvent w c opts =
     (let websiteId = js_get (options c) ''websiteId'' in
      if \<not> truthy websiteId then (Inl websiteId_required, c, [])
      else if \<not> truthy (js_get opts ''name'') then
        (Inl (ValidationError ''name is required for event tracking'' (Some ''name'') JUndefined), c, [])
      else send w c (fmap_of_list [(''website'', websiteId)] ++\<^sub>f opts) Event)"

text \<open>
  The first argument of \<^verbatim>\<open>track\<close> is a string or an options object; the second,
  \<^verbatim>\<open>eventData\<close>, is \<^verbatim>\<open>undefined\<close> when it is left out.
\<close>

datatype track_event = EventName string | EventOptions obj

definition track :: "world \<Rightarrow> client \<Rightarrow> track_event \<Rightarrow> jsval \<Rightarrow> call" where
  "track w c event eventData =
     (let websiteId = js_get (options c) ''websiteId'' in
      if \<not> truthy websiteId then (Inl websiteId_required, c, [])
      else
        (case event of
           EventName name \<Rightarrow>
             send w c
               (fmap_of_list [(''website'', websiteId), (''name'', JStr name), (''data'', eventData)])
               Event
         | EventOptions ev \<Rightarrow>
             send w c
               (fmupd ''data'' (js_or eventData (js_get ev ''data''))
                  (fmap_of_list [(''website'', websiteId)] ++\<^sub>f ev))
               Event))"

text \<open>\<^verbatim>\<open>identify\<close> merges into the property bag before it calls \<^verbatim>\<open>send\<close>.\<close>

definition identify :: "world \<Rightarrow> client \<Rightarrow> obj \<Rightarrow> call" where
  "identify w c props =
     (let websiteId = js_get (options c) ''websiteId'';
          sessionId = js_get (options c) ''sessionId''
      in
      if \<not> truthy websiteId then (Inl websiteId_required, c, [])
      else
        (let c' = c\<lparr>properties := properties c ++\<^sub>f props\<rparr> in
         send w c'
           (fmap_of_list
              [(''website'', websiteId),
               (''session'', js_or (js_get props ''sessionId'') sessionId),
               (''data'', JObj (properties c'))])
           Identify))"

section \<open>Property management\<close>

definition setProperty :: "client \<Rightarrow> string \<Rightarrow> jsval \<Rightarrow> client" where
  "setProperty c key v = c\<lparr>properties := fmupd key v (properties c)\<rparr>"

definition setProperties :: "client \<Rightarrow> obj \<Rightarrow> client" where
  "setProperties c props = c\<lparr>properties := properties c ++\<^sub>f props\<rparr>"

definition getProperties :: "client \<Rightarrow> obj" where
  "getProperties c = properties c"

definition reset :: "client \<Rightarrow> client" where
  "reset c = c\<lparr>properties := fmempty\<rparr>"

definition clearProperty :: "client \<Rightarrow> string \<Rightarrow> client" where
  "clearProperty c key = c\<lparr>properties := fmdrop key (properties c)\<rparr>"

section \<open>Specialised collectors\<close>

text \<open>
  The four collectors end in the same lines: arm the timer with
  \<^verbatim>\<open>this.options.timeout || 10000\<close>, post the payload, throw an \<^verbatim>\<open>ApiError\<close> without
  body on a response that is not ok, and clear the timer in \<^verbatim>\<open>finally\<close>. There is no
  \<^verbatim>\<open>catch\<close> clause: whatever \<^verbatim>\<open>fetch\<close> throws leaves the call as it is.
\<close>

definition collect_request :: "jsval \<Rightarrow> string \<Rightarrow> obj \<Rightarrow> request" where
  "collect_request hostUrl path payload =
     \<lparr>req_host = hostUrl, req_path = path, req_method = ''POST'',
      req_headers = [(''Content-Type'', JStr ''application/json'')],
      req_body = JObj payload\<rparr>"

definition collect_timeout :: "client \<Rightarrow> jsval" where
  "collect_timeout c = js_or (js_get (options c) ''timeout'') (JNum (Num 10000))"

definition collect :: "world \<Rightarrow> client \<Rightarrow> jsval \<Rightarrow> string \<Rightarrow> obj \<Rightarrow> call" where
  "collect w c hostUrl path payload =
     (case fetch w (collect_request hostUrl path payload) of
        (res, fx) \<Rightarrow>
          (let result =
                 (case res of
                    Inl e \<Rightarrow> Inl (Other e)
                  | Inr r \<Rightarrow>
                      if \<not> ok r then Inl (ApiError (http_error_message (status r)) (status r) r JUndefined)
                      else Inr r)
           in (result, c, [SetTimeout (collect_timeout c)] @ fx @ [ClearTimeout])))"

definition trackVital :: "world \<Rightarrow> client \<Rightarrow> obj \<Rightarrow> call" where
  "trackVital w c opts =
     (let websiteId = js_get (options c) ''websiteId'';
          hostUrl = js_get (options c) ''hostUrl''
      in
      if \<not> truthy websiteId then (Inl websiteId_required, c, [])
      else if \<not> truthy hostUrl then (Inl hostUrl_required, c, [])
      else
        collect w c hostUrl ''/api/collect/vitals''
          (fmap_of_list
             [(''website'', websiteId),
              (''metric'', js_get opts ''metric''),
              (''value'', js_get opts ''value''),
              (''rating'', js_get opts ''rating''),
              (''delta'', js_get opts ''delta''),
              (''id'', js_get opts ''id''),
              (''navigationType'', js_get opts ''navigationType''),
              (''attribution'', js_get opts ''attribution''),
              (''url'', js_get opts ''url''),
              (''path'', js_get opts ''path'')]))"

text \<open>
  \<^verbatim>\<open>options.vitals.map(...)\<close> throws a \<^verbatim>\<open>TypeError\<close> when \<^verbatim>\<open>vitals\<close> is not an array; it
  runs after both configuration checks and before the timer is armed.
\<close>

definition trackVitalsBatch :: "world \<Rightarrow> client \<Rightarrow> obj \<Rightarrow> call" where
  "trackVitalsBatch w c opts =
     (let websiteId = js_get (options c) ''websiteId'';
          hostUrl = js_get (options c) ''hostUrl''
      in
      if \<not> truthy websiteId then (Inl websiteId_required, c, [])
      else if \<not> truthy hostUrl then (Inl hostUrl_required, c, [])
      else
        (case js_get opts ''vitals'' of
           JArr vs \<Rightarrow>
             collect w c hostUrl ''/api/collect/vitals''
               (fmap_of_list
                  [(''website'', websiteId),
                   (''vitals'',
                      JArr (map (\<lambda>v. JObj (fmupd ''path'' (js_get opts ''path'')
                                             (fmupd ''url'' (js_get opts ''url'') (own_props v)))) vs))])
         | JUndefined \<Rightarrow>
             (Inl (Other (JsError TypeErrorClass ''TypeError''
                     ''Cannot read properties of undefined (reading 'map')'')), c, [])
         | JNull \<Rightarrow>
             (Inl (Other (JsError TypeErrorClass ''TypeError''
                     ''Cannot read properties of null (reading 'map')'')), c, [])
         | other \<Rightarrow>
             (Inl (Other (JsError TypeErrorClass ''TypeError'' ''options.vitals.map is not a function'')),
              c, [])))"

definition trackForm :: "world \<Rightarrow> client \<Rightarrow> obj \<Rightarrow> call" where
  "trackForm w c opts =
     (let websiteId = js_get (options c) ''websiteId'';
          hostUrl = js_get (options c) ''hostUrl''
      in
      if \<not> truthy websiteId then (Inl websiteId_required, c, [])
      else if \<not> truthy hostUrl then (Inl hostUrl_required, c, [])
      else
        collect w c hostUrl ''/api/collect/forms''
          (fmap_of_list [(''website'', websiteId)] ++\<^sub>f opts))"

definition trackFormBatch :: "world \<Rightarrow> client \<Rightarrow> obj \<Rightarrow> call" where
  "trackFormBatch w c opts =
     (let websiteId = js_get (options c) ''websiteId'';
          hostUrl = js_get (options c) ''hostUrl''
      in
      if \<not> truthy websiteId then (Inl websiteId_required, c, [])
      else if \<not> truthy hostUrl then (Inl hostUrl_required, c, [])
      else
        collect w c hostUrl ''/api/collect/forms''
          (fmap_of_list [(''website'', websiteId), (''events'', js_get opts ''events'')]))"

section \<open>Deployment information\<close>

text \<open>
  \<^verbatim>\<open>setDeployment\<close> spreads the argument over the private record and then assigns
  each of the three mirrored options with \<^verbatim>\<open>deployment.x || this.options.x\<close>.
\<close>

definition setDeployment :: "client \<Rightarrow> obj \<Rightarrow> client" where
  "setDeployment c deployment =
     (let c1 = c\<lparr>deploymentInfo := deploymentInfo c ++\<^sub>f deployment\<rparr>;
          c2 = c1\<lparr>options := fmupd ''deployId''
                   (js_or (js_get deployment ''deployId'') (js_get (options c1) ''deployId'')) (options c1)\<rparr>;
          c3 = c2\<lparr>options := fmupd ''gitSha''
                   (js_or (js_get deployment ''gitSha'') (js_get (options c2) ''gitSha'')) (options c2)\<rparr>
      in c3\<lparr>options := fmupd ''gitBranch''
               (js_or (js_get deployment ''gitBranch'') (js_get (options c3) ''gitBranch'')) (options c3)\<rparr>)"

definition getDeployment :: "client \<Rightarrow> obj" where
  "getDeployment c = deploymentInfo c"

section \<open>Sequences of calls and what reaches the network\<close>

text \<open>
  The public methods as one type, so that a client can be followed through any
  sequence of calls. Only the client after the call matters for the next call.
  (An assignment \<^verbatim>\<open>this.properties[key] = value\<close> with the key \<^verbatim>\<open>__proto__\<close> reaches the
  prototype and creates no property; the model stores it like any key.)
\<close>

datatype api_call =
    CallInit obj
  | CallSend obj SendType
  | CallTrackPageView obj
  | CallTrackEvent obj
  | CallTrack track_event jsval
  | CallIdentify obj
  | CallSetProperty string jsval
  | CallSetProperties obj
  | CallGetProperties
  | CallReset
  | CallClearProperty string
  | CallTrackVital obj
  | CallTrackVitalsBatch obj
  | CallTrackForm obj
  | CallTrackFormBatch obj
  | CallSetDeployment obj
  | CallGetDeployment

fun perform :: "world \<Rightarrow> client \<Rightarrow> api_call \<Rightarrow> client" where
  "perform w c (CallInit opts) = init c opts"
| "perform w c (CallSend payload type) = fst (snd (send w c payload type))"
| "perform w c (CallTrackPageView opts) = fst (snd (trackPageView w c opts))"
| "perform w c (CallTrackEvent opts) = fst (snd (trackEvent w c opts))"
| "perform w c (CallTrack event eventData) = fst (snd (track w c event eventData))"
| "perform w c (CallIdentify props) = fst (snd (identify w c props))"
| "perform w c (CallSetProperty key v) = setProperty c key v"
| "perform w c (CallSetProperties props) = setProperties c props"
| "perform w c CallGetProperties = c"
| "perform w c CallReset = reset c"
| "perform w c (CallClearProperty key) = clearProperty c key"
| "perform w c (CallTrackVital opts) = fst (snd (trackVital w c opts))"
| "perform w c (CallTrackVitalsBatch opts) = fst (snd (trackVitalsBatch w c opts))"
| "perform w c (CallTrackForm opts) = fst (snd (trackForm w c opts))"
| "perform w c (CallTrackFormBatch opts) = fst (snd (trackFormBatch w c opts))"
| "perform w c (CallSetDeployment deployment) = setDeployment c deployment"
| "perform w c CallGetDeployment = c"

fun perform_all :: "world \<Rightarrow> client \<Rightarrow> api_call list \<Rightarrow> client" where
  "perform_all w c [] = c"
| "perform_all w c (x # xs) = perform_all w (perform w c x) xs"

text \<open>
  The calls that can take a key of the property bag off the wire: those that remove
  it, and those that give it the value \<^verbatim>\<open>undefined\<close>.
\<close>

fun unsets :: "string \<Rightarrow> api_call \<Rightarrow> bool" where
  "unsets k CallReset = True"
| "unsets k (CallClearProperty key) = (key = k)"
| "unsets k (CallSetProperty key v) = (key = k \<and> v = JUndefined)"
| "unsets k (CallSetProperties props) = (fmlookup props k = Some JUndefined)"
| "unsets k (CallIdentify props) = (fmlookup props k = Some JUndefined)"
| "unsets k x = False"

text \<open>
  \<^verbatim>\<open>JSON.stringify\<close> writes a property of an object unless its value is \<^verbatim>\<open>undefined\<close>:
  on the wire, a property with the value \<^verbatim>\<open>undefined\<close> is a property that is not there.
\<close>

definition on_wire :: "obj \<Rightarrow> string \<Rightarrow> jsval option" where
  "on_wire m k = (case fmlookup m k of Some JUndefined \<Rightarrow> None | x \<Rightarrow> x)"

text \<open>
  The payload of a request of \<^verbatim>\<open>send\<close> is the \<^verbatim>\<open>payload\<close> property of its body; these
  read one property of the payload of every request of a call, as it is on the wire
  (is the property there) and as a value.
\<close>

definition payload_of :: "request \<Rightarrow> obj" where
  "payload_of r = own_props (js_get (own_props (req_body r)) ''payload'')"

definition payload_lookups :: "string \<Rightarrow> effect list \<Rightarrow> jsval option list" where
  "payload_lookups k fx = map (\<lambda>r. on_wire (payload_of r) k) (requests fx)"

definition payload_values :: "string \<Rightarrow> effect list \<Rightarrow> jsval list" where
  "payload_values k fx = map (\<lambda>r. js_get (payload_of r) k) (requests fx)"

text \<open>One property of the \<^verbatim>\<open>data\<close> object of the payload of every request, on the wire.\<close>

definition data_lookups :: "string \<Rightarrow> effect list \<Rightarrow> jsval option list" where
  "data_lookups k fx = map (\<lambda>r. on_wire (own_props (js_get (payload_of r) ''data'')) k) (requests fx)"

text \<open>The result, the client and the effects of a call.\<close>

definition result_of :: "call \<Rightarrow> thrown + response" where
  "result_of x = fst x"

definition client_of :: "call \<Rightarrow> client" where
  "client_of x = fst (snd x)"

definition effects_of :: "call \<Rightarrow> effect list" where
  "effects_of x = snd (snd x)"

section \<open>Worlds, responses and clients to run the client on\<close>

definition world_of :: "fetch_outcome \<Rightarrow> world" where
  "world_of out =
     \<lparr>network = (\<lambda>req. out), process_version = Some ''v24.1.0'', process_env = (\<lambda>n. None)\<rparr>"

definition response_of ::
  "bool \<Rightarrow> nat \<Rightarrow> string option \<Rightarrow> js_exn + jsval \<Rightarrow> js_exn + string \<Rightarrow> response" where
  "response_of is_ok s retry js tx =
     \<lparr>ok = is_ok, status = s,
      headers_get = (\<lambda>n. if n = ''Retry-After'' then retry else None),
      json_result = js, text_result = tx\<rparr>"

definition syntax_error :: js_exn where
  "syntax_error = JsError PlainError ''SyntaxError'' ''Unexpected token''"

definition body_used :: js_exn where
  "body_used = JsError TypeErrorClass ''TypeError'' ''Body is unusable: Body has already been read''"

definition site_client :: client where
  "site_client =
     new_Entrolytics (world_of TimerFires)
       (fmap_of_list [(''websiteId'', JStr ''site''), (''hostUrl'', JStr ''https://h.example'')])"

definition session_client :: client where
  "session_client =
     new_Entrolytics (world_of TimerFires)
       (fmap_of_list
          [(''websiteId'', JStr ''site''), (''hostUrl'', JStr ''https://h.example''),
           (''sessionId'', JStr ''cfg'')])"

definition bare_client :: client where
  "bare_client = new_Entrolytics (world_of TimerFires) fmempty"

section \<open>Reading objects\<close>

lemma js_get_fmupd [simp]: "js_get (fmupd k v m) k' = (if k = k' then v else js_get m k')"
  by (simp add: js_get_def)

lemma js_get_fmempty [simp]: "js_get fmempty k = JUndefined"
  by (simp add: js_get_def)

lemma js_get_fmadd: "js_get (m ++\<^sub>f n) k = (if k |\<in>| fmdom n then js_get n k else js_get m k)"
  by (simp add: js_get_def)

lemma js_or_undefined [simp]: "js_or JUndefined b = b"
  by (simp add: js_or_def)

lemmas example_defs =
  bare_client_def site_client_def session_client_def new_Entrolytics_def
  detectDeploymentInfo_def world_of_def first_env_def response_of_def

lemma bare_client_websiteId: "js_get (options bare_client) ''websiteId'' = JUndefined"
  by (simp add: example_defs js_get_fmadd)

lemma bare_client_hostUrl: "js_get (options bare_client) ''hostUrl'' = JUndefined"
  by (simp add: example_defs js_get_fmadd)

lemma site_client_websiteId: "js_get (options site_client) ''websiteId'' = JStr ''site''"
  by (simp add: example_defs js_get_fmadd)

lemma site_client_hostUrl: "js_get (options site_client) ''hostUrl'' = JStr ''https://h.example''"
  by (simp add: example_defs js_get_fmadd)

text \<open>The message of each configuration error names its field.\<close>

lemma configuration_messages:
  "configuration_message ''hostUrl is required. Call init() with hostUrl first.'' (Some ''hostUrl'')
     = ''hostUrl is required. Call init() with hostUrl first.: '' @ [CHR 0x27] @ ''hostUrl'' @ [CHR 0x27] @ '' is required''"
  "configuration_message ''websiteId is required. Call init() with websiteId first.'' (Some ''websiteId'')
     = ''websiteId is required. Call init() with websiteId first.: '' @ [CHR 0x27] @ ''websiteId'' @ [CHR 0x27] @ '' is required''"
  by (simp_all add: configuration_message_def)

section \<open>setDeployment\<close>

text \<open>
  Claim C3, as the code has it. For every call \<^verbatim>\<open>setDeployment(d)\<close> and every property
  name \<open>k\<close>: the mirrored option \<open>k\<close> reads as the incoming value exactly when \<open>k\<close> is
  one of \<^verbatim>\<open>deployId\<close>, \<^verbatim>\<open>gitSha\<close>, \<^verbatim>\<open>gitBranch\<close> and the incoming value is non-empty
  (truthy), and reads as before otherwise; the private deployment record takes every
  property that \<open>d\<close> mentions, whatever its value, an empty string or \<^verbatim>\<open>undefined\<close>
  included, and keeps every property that \<open>d\<close> does not mention; the property bag is
  untouched. So a property that \<open>d\<close> does not mention is unchanged in both copies, and
  an empty incoming value keeps the old option but replaces the old entry of the
  private record.
\<close>

theorem setDeployment_updates:
  "js_get (options (setDeployment c d)) k =
     (if k \<in> {''deployId'', ''gitSha'', ''gitBranch''} \<and> truthy (js_get d k)
      then js_get d k else js_get (options c) k)
   \<and> fmlookup (deploymentInfo (setDeployment c d)) k =
       (if k |\<in>| fmdom d then fmlookup d k else fmlookup (deploymentInfo c) k)
   \<and> properties (setDeployment c d) = properties c"
  by (simp add: setDeployment_def Let_def js_or_def)

theorem setDeployment_updates_witness:
  "js_get (options (setDeployment
      (setDeployment bare_client (fmap_of_list [(''deployId'', JStr ''dpl_1''), (''gitBranch'', JStr ''main'')]))
      (fmap_of_list [(''gitSha'', JStr ''abc'')]))) ''gitSha'' = JStr ''abc''
   \<and> fmlookup (deploymentInfo (setDeployment
      (setDeployment bare_client (fmap_of_list [(''deployId'', JStr ''dpl_1''), (''gitBranch'', JStr ''main'')]))
      (fmap_of_list [(''gitSha'', JStr ''abc'')]))) ''gitSha'' = Some (JStr ''abc'')
   \<and> js_get (options (setDeployment
      (setDeployment bare_client (fmap_of_list [(''deployId'', JStr ''dpl_1''), (''gitBranch'', JStr ''main'')]))
      (fmap_of_list [(''gitSha'', JStr ''abc'')]))) ''deployId'' = JStr ''dpl_1''
   \<and> fmlookup (deploymentInfo (setDeployment
      (setDeployment bare_client (fmap_of_list [(''deployId'', JStr ''dpl_1''), (''gitBranch'', JStr ''main'')]))
      (fmap_of_list [(''gitSha'', JStr ''abc'')]))) ''deployId'' = Some (JStr ''dpl_1'')"
  using setDeployment_updates [where k = "''gitSha''"
      and c = "setDeployment bare_client (fmap_of_list [(''deployId'', JStr ''dpl_1''), (''gitBranch'', JStr ''main'')])"
      and d = "fmap_of_list [(''gitSha'', JStr ''abc'')]"]
    setDeployment_updates [where k = "''deployId''"
      and c = "setDeployment bare_client (fmap_of_list [(''deployId'', JStr ''dpl_1''), (''gitBranch'', JStr ''main'')])"
      and d = "fmap_of_list [(''gitSha'', JStr ''abc'')]"]
  by (simp add: setDeployment_def Let_def js_or_def)

text \<open>
  The claim as written (an empty incoming value keeps the old value in both copies)
  fails: after \<^verbatim>\<open>setDeployment({gitSha: 'abc'})\<close>, the call \<^verbatim>\<open>setDeployment({gitSha: ''})\<close>
  leaves \<^verbatim>\<open>'abc'\<close> in the option and puts the empty string into the private record.
\<close>

theorem setDeployment_empty_counterexample:
  "js_get (deploymentInfo
      (setDeployment (setDeployment bare_client (fmap_of_list [(''gitSha'', JStr ''abc'')]))
         (fmap_of_list [(''gitSha'', JStr '''')]))) ''gitSha'' = JStr ''''
   \<and> js_get (deploymentInfo
      (setDeployment bare_client (fmap_of_list [(''gitSha'', JStr ''abc'')]))) ''gitSha'' = JStr ''abc''
   \<and> js_get (options
      (setDeployment (setDeployment bare_client (fmap_of_list [(''gitSha'', JStr ''abc'')]))
         (fmap_of_list [(''gitSha'', JStr '''')]))) ''gitSha'' = JStr ''abc''"
  by (simp add: setDeployment_def Let_def js_or_def js_get_fmadd)

section \<open>Missing configuration\<close>

text \<open>
  Claim C4, as the code has it. When \<^verbatim>\<open>hostUrl\<close> is absent (or empty), \<^verbatim>\<open>send\<close> fails
  with the configuration error that names \<^verbatim>\<open>hostUrl\<close>; each of the four collectors
  fails with that error when \<^verbatim>\<open>websiteId\<close> is configured and with the configuration
  error that names \<^verbatim>\<open>websiteId\<close> when it is not, because the collectors check
  \<^verbatim>\<open>websiteId\<close> first. In every case the client is unchanged and the call has no
  effect: no timer, no request.
\<close>

theorem hostUrl_missing:
  assumes "\<not> truthy (js_get (options c) ''hostUrl'')"
  shows "send w c payload type = (Inl hostUrl_required, c, [])
    \<and> trackVital w c opts =
        (Inl (if truthy (js_get (options c) ''websiteId'') then hostUrl_required else websiteId_required), c, [])
    \<and> trackVitalsBatch w c opts =
        (Inl (if truthy (js_get (options c) ''websiteId'') then hostUrl_required else websiteId_required), c, [])
    \<and> trackForm w c opts =
        (Inl (if truthy (js_get (options c) ''websiteId'') then hostUrl_required else websiteId_required), c, [])
    \<and> trackFormBatch w c opts =
        (Inl (if truthy (js_get (options c) ''websiteId'') then hostUrl_required else websiteId_required), c, [])"
  using assms
  by (simp add: send_def trackVital_def trackVitalsBatch_def trackForm_def trackFormBatch_def Let_def)

theorem hostUrl_missing_witness:
  "send (world_of TimerFires) bare_client fmempty Event = (Inl hostUrl_required, bare_client, [])
   \<and> trackVital (world_of TimerFires) bare_client fmempty = (Inl websiteId_required, bare_client, [])"
  using hostUrl_missing [where c = bare_client and w = "world_of TimerFires"
          and payload = fmempty and type = Event and opts = fmempty]
  by (simp add: bare_client_hostUrl bare_client_websiteId)

text \<open>
  The claim as written fails for a client with neither field: \<^verbatim>\<open>trackVital\<close> then
  fails with the error that names \<^verbatim>\<open>websiteId\<close>, not \<^verbatim>\<open>hostUrl\<close>.
\<close>

theorem collector_names_websiteId_counterexample:
  "\<not> truthy (js_get (options bare_client) ''hostUrl'')
   \<and> result_of (trackVital (world_of TimerFires) bare_client fmempty) =
       Inl (ConfigurationError ''websiteId is required. Call init() with websiteId first.'' (Some ''websiteId''))
   \<and> result_of (trackVital (world_of TimerFires) bare_client fmempty) \<noteq>
       Inl (ConfigurationError ''hostUrl is required. Call init() with hostUrl first.'' (Some ''hostUrl''))"
  by (simp add: bare_client_hostUrl bare_client_websiteId trackVital_def Let_def result_of_def
      websiteId_required_def)

text \<open>
  Claim C5. When \<^verbatim>\<open>websiteId\<close> is absent (or empty), each of the eight tracking calls
  fails with the configuration error that names \<^verbatim>\<open>websiteId\<close>. With \<^verbatim>\<open>websiteId\<close>
  configured, \<^verbatim>\<open>trackPageView\<close> with an empty \<^verbatim>\<open>url\<close> fails with the validation error
  for \<^verbatim>\<open>url\<close>, and \<^verbatim>\<open>trackEvent\<close> with an empty \<^verbatim>\<open>name\<close> fails with the validation
  error for \<^verbatim>\<open>name\<close>. In all these cases the client after the call is the client
  before it (for \<^verbatim>\<open>identify\<close>: nothing was merged into the property bag) and the call
  has no effect: no timer, no request.
\<close>

theorem websiteId_missing:
  "(\<not> truthy (js_get (options c) ''websiteId'') \<longrightarrow>
      trackPageView w c opts = (Inl websiteId_required, c, [])
    \<and> trackEvent w c opts = (Inl websiteId_required, c, [])
    \<and> track w c event eventData = (Inl websiteId_required, c, [])
    \<and> identify w c opts = (Inl websiteId_required, c, [])
    \<and> trackVital w c opts = (Inl websiteId_required, c, [])
    \<and> trackVitalsBatch w c opts = (Inl websiteId_required, c, [])
    \<and> trackForm w c opts = (Inl websiteId_required, c, [])
    \<and> trackFormBatch w c opts = (Inl websiteId_required, c, []))
   \<and> (truthy (js_get (options c) ''websiteId'') \<and> \<not> truthy (js_get opts ''url'') \<longrightarrow>
        trackPageView w c opts =
          (Inl (ValidationError ''url is required for page view tracking'' (Some ''url'') JUndefined), c, []))
   \<and> (truthy (js_get (options c) ''websiteId'') \<and> \<not> truthy (js_get opts ''name'') \<longrightarrow>
        trackEvent w c opts =
          (Inl (ValidationError ''name is required for event tracking'' (Some ''name'') JUndefined), c, []))"
  by (simp add: trackPageView_def trackEvent_def track_def identify_def trackVital_def
      trackVitalsBatch_def trackForm_def trackFormBatch_def Let_def)

theorem websiteId_missing_witness:
  "identify (world_of TimerFires) bare_client (fmap_of_list [(''plan'', JStr ''pro'')])
     = (Inl websiteId_required, bare_client, [])
   \<and> trackPageView (world_of TimerFires) site_client fmempty =
       (Inl (ValidationError ''url is required for page view tracking'' (Some ''url'') JUndefined),
        site_client, [])
   \<and> trackEvent (world_of TimerFires) site_client (fmap_of_list [(''name'', JStr '''')]) =
       (Inl (ValidationError ''name is required for event tracking'' (Some ''name'') JUndefined),
        site_client, [])"
  using websiteId_missing [where c = bare_client and w = "world_of TimerFires"
          and opts = "fmap_of_list [(''plan'', JStr ''pro'')]"]
    websiteId_missing [where c = site_client and w = "world_of TimerFires" and opts = fmempty]
    websiteId_missing [where c = site_client and w = "world_of TimerFires"
          and opts = "fmap_of_list [(''name'', JStr '''')]"]
  by (simp add: bare_client_websiteId site_client_websiteId)

section \<open>What a request leads to\<close>

lemma site_client_timeout: "js_get (options site_client) ''timeout'' = JNum (Num 10000)"
  by (simp add: example_defs js_get_fmadd)

lemma network_world_of [simp]: "network (world_of out) req = out"
  by (simp add: world_of_def)

lemma show_nat_examples: "show_nat 429 = ''429''" "show_nat 500 = ''500''" "show_nat 30 = ''30''"
  by (simp_all add: show_nat.simps digit_char_def)

lemma parseInt10_examples:
  "parseInt10 ''30'' = Num 30" "parseInt10 ''soon'' = NaN" "parseInt10 '' -12abc'' = Num (- 12)"
  "parseInt10 ''-0'' = NegZero"
  "parseInt10 ''9007199254740993'' = Inexact 9007199254740993"
  by (simp_all add: parseInt10_def Let_def is_js_space_def is_digit_def digit_value_def
      digits_value_def number_of_digits_def)

text \<open>
  A call of \<^verbatim>\<open>send\<close> that issued a request issued exactly one, left the client as it
  was, and ended according to what happened to that request.
\<close>

lemma send_outcome:
  assumes "send w c payload type = (res, c', fx)" and "Fetch req \<in> set fx"
  shows "req = send_request w c payload type \<and> c' = c \<and>
    (case network w req of
       Resolves r \<Rightarrow>
         res = (case send_check r of Inl e \<Rightarrow> Inl (send_catch (send_timeout c) e) | Inr r' \<Rightarrow> Inr r')
         \<and> fx = [SetTimeout (send_timeout c), Fetch req, ClearTimeout]
     | TimerFires \<Rightarrow>
         res = Inl (TimeoutError (send_timeout c))
         \<and> fx = [SetTimeout (send_timeout c), Fetch req, Abort, ClearTimeout]
     | Rejects e \<Rightarrow>
         res = Inl (send_catch (send_timeout c) (Other e))
         \<and> fx = [SetTimeout (send_timeout c), Fetch req, ClearTimeout])"
  using assms
  by (cases "network w (send_request w c payload type)"; cases "truthy (js_get (options c) ''hostUrl'')")
     (auto simp: send_def fetch_def Let_def abort_error_def)

lemma collect_outcome:
  assumes "collect w c hostUrl path payload = (res, c', fx)" and "Fetch req \<in> set fx"
  shows "req = collect_request hostUrl path payload \<and> c' = c \<and>
    (case network w req of
       Resolves r \<Rightarrow>
         res = (if \<not> ok r then Inl (ApiError (http_error_message (status r)) (status r) r JUndefined) else Inr r)
         \<and> fx = [SetTimeout (collect_timeout c), Fetch req, ClearTimeout]
     | TimerFires \<Rightarrow>
         res = Inl (Other abort_error)
         \<and> fx = [SetTimeout (collect_timeout c), Fetch req, Abort, ClearTimeout]
     | Rejects e \<Rightarrow>
         res = Inl (Other e)
         \<and> fx = [SetTimeout (collect_timeout c), Fetch req, ClearTimeout])"
  using assms
  by (cases "network w (collect_request hostUrl path payload)")
     (auto simp: collect_def fetch_def Let_def)

lemma collector_outcome:
  assumes "x = trackVital w c opts \<or> x = trackVitalsBatch w c opts
         \<or> x = trackForm w c opts \<or> x = trackFormBatch w c opts"
    and "x = (res, c', fx)" and "Fetch req \<in> set fx"
  shows "c' = c \<and>
    (case network w req of
       Resolves r \<Rightarrow>
         res = (if \<not> ok r then Inl (ApiError (http_error_message (status r)) (status r) r JUndefined) else Inr r)
         \<and> fx = [SetTimeout (collect_timeout c), Fetch req, ClearTimeout]
     | TimerFires \<Rightarrow>
         res = Inl (Other abort_error)
         \<and> fx = [SetTimeout (collect_timeout c), Fetch req, Abort, ClearTimeout]
     | Rejects e \<Rightarrow>
         res = Inl (Other e)
         \<and> fx = [SetTimeout (collect_timeout c), Fetch req, ClearTimeout])"
proof -
  from assms obtain h p pl where "collect w c h p pl = (res, c', fx)"
    by (auto simp: trackVital_def trackVitalsBatch_def trackForm_def trackFormBatch_def Let_def
        split: if_splits jsval.splits)
  from collect_outcome [OF this assms(3)] show ?thesis
    by (cases "network w req") auto
qed

text \<open>The example client in a world where every request has the same outcome.\<close>

lemma site_client_send:
  "send (world_of out) site_client payload type =
     (case out of
        Resolves r \<Rightarrow>
          (case send_check r of Inl e \<Rightarrow> Inl (send_catch (JNum (Num 10000)) e) | Inr r' \<Rightarrow> Inr r')
      | TimerFires \<Rightarrow> Inl (TimeoutError (JNum (Num 10000)))
      | Rejects e \<Rightarrow> Inl (send_catch (JNum (Num 10000)) (Other e)),
      site_client,
      SetTimeout (JNum (Num 10000)) # Fetch (send_request (world_of out) site_client payload type)
        # (case out of TimerFires \<Rightarrow> [Abort, ClearTimeout] | _ \<Rightarrow> [ClearTimeout]))"
  by (cases out)
     (simp_all add: send_def Let_def fetch_def send_timeout_def site_client_hostUrl
        site_client_timeout abort_error_def)

lemma site_client_trackVital:
  "\<exists>req. trackVital (world_of out) site_client opts =
     (case out of
        Resolves r \<Rightarrow>
          if \<not> ok r then Inl (ApiError (http_error_message (status r)) (status r) r JUndefined) else Inr r
      | TimerFires \<Rightarrow> Inl (Other abort_error)
      | Rejects e \<Rightarrow> Inl (Other e),
      site_client,
      SetTimeout (JNum (Num 10000)) # Fetch req
        # (case out of TimerFires \<Rightarrow> [Abort, ClearTimeout] | _ \<Rightarrow> [ClearTimeout]))"
  by (cases out)
     (simp_all add: trackVital_def collect_def Let_def fetch_def collect_timeout_def
        site_client_hostUrl site_client_websiteId site_client_timeout js_or_def)

section \<open>Timeouts\<close>

text \<open>
  Claim C1, as the code has it. When the cancellation timer fires before a response
  arrives for the request of a call, the request is aborted and the timer is cleared
  in every one of the five operations. \<^verbatim>\<open>send\<close> then fails with a timeout error that
  carries the configured timeout, 10000 when the option is \<^verbatim>\<open>undefined\<close>. The four
  collectors have no \<^verbatim>\<open>catch\<close> clause: they fail with the abort error of the HTTP
  layer as it is, not with a timeout error; their timer was armed with
  \<^verbatim>\<open>this.options.timeout || 10000\<close>.
\<close>

theorem timer_fires_first:
  assumes "Fetch req \<in> set fx" and "network w req = TimerFires"
  shows "(send w c payload type = (res, c', fx) \<longrightarrow>
            res = Inl (TimeoutError
                    (if js_get (options c) ''timeout'' = JUndefined then JNum (Num 10000)
                     else js_get (options c) ''timeout''))
            \<and> fx = [SetTimeout
                      (if js_get (options c) ''timeout'' = JUndefined then JNum (Num 10000)
                       else js_get (options c) ''timeout''),
                    Fetch req, Abort, ClearTimeout])
       \<and> (trackVital w c opts = (res, c', fx) \<or> trackVitalsBatch w c opts = (res, c', fx)
            \<or> trackForm w c opts = (res, c', fx) \<or> trackFormBatch w c opts = (res, c', fx) \<longrightarrow>
            res = Inl (Other abort_error)
            \<and> fx = [SetTimeout (js_or (js_get (options c) ''timeout'') (JNum (Num 10000))),
                    Fetch req, Abort, ClearTimeout])"
proof (intro conjI impI)
  assume s: "send w c payload type = (res, c', fx)"
  from send_outcome [OF s assms(1)] assms(2)
  have "res = Inl (TimeoutError (send_timeout c))"
    and "fx = [SetTimeout (send_timeout c), Fetch req, Abort, ClearTimeout]"
    by simp_all
  then show "res = Inl (TimeoutError
                    (if js_get (options c) ''timeout'' = JUndefined then JNum (Num 10000)
                     else js_get (options c) ''timeout''))"
    and "fx = [SetTimeout
                      (if js_get (options c) ''timeout'' = JUndefined then JNum (Num 10000)
                       else js_get (options c) ''timeout''),
                    Fetch req, Abort, ClearTimeout]"
    by (simp_all add: send_timeout_def)
next
  assume t: "trackVital w c opts = (res, c', fx) \<or> trackVitalsBatch w c opts = (res, c', fx)
            \<or> trackForm w c opts = (res, c', fx) \<or> trackFormBatch w c opts = (res, c', fx)"
  then have "(res, c', fx) = trackVital w c opts \<or> (res, c', fx) = trackVitalsBatch w c opts
         \<or> (res, c', fx) = trackForm w c opts \<or> (res, c', fx) = trackFormBatch w c opts"
    by auto
  from collector_outcome [OF this refl assms(1)] assms(2)
  have "res = Inl (Other abort_error)"
    and "fx = [SetTimeout (collect_timeout c), Fetch req, Abort, ClearTimeout]"
    by simp_all
  then show "res = Inl (Other abort_error)"
    and "fx = [SetTimeout (js_or (js_get (options c) ''timeout'') (JNum (Num 10000))),
                    Fetch req, Abort, ClearTimeout]"
    by (simp_all add: collect_timeout_def)
qed

theorem timer_fires_first_witness:
  "result_of (send (world_of TimerFires) site_client fmempty Event)
     = Inl (TimeoutError (JNum (Num 10000)))
   \<and> Abort \<in> set (effects_of (send (world_of TimerFires) site_client fmempty Event))
   \<and> result_of (trackForm (world_of TimerFires) site_client fmempty) = Inl (Other abort_error)
   \<and> Abort \<in> set (effects_of (trackForm (world_of TimerFires) site_client fmempty))"
proof -
  let ?x = "send (world_of TimerFires) site_client fmempty Event"
  let ?req = "send_request (world_of TimerFires) site_client fmempty Event"
  let ?y = "trackForm (world_of TimerFires) site_client fmempty"
  let ?req' = "collect_request (JStr ''https://h.example'') ''/api/collect/forms''
                 (fmap_of_list [(''website'', JStr ''site'')])"
  have a: "Fetch ?req \<in> set (effects_of ?x)"
    by (simp add: site_client_send effects_of_def)
  have b: "network (world_of TimerFires) ?req = TimerFires"
    by simp
  have c: "?x = (result_of ?x, client_of ?x, effects_of ?x)"
    by (simp add: result_of_def client_of_def effects_of_def)
  have a': "Fetch ?req' \<in> set (effects_of ?y)"
    by (simp add: trackForm_def collect_def fetch_def Let_def effects_of_def
        site_client_websiteId site_client_hostUrl)
  have b': "network (world_of TimerFires) ?req' = TimerFires"
    by simp
  have c': "?y = (result_of ?y, client_of ?y, effects_of ?y)"
    by (simp add: result_of_def client_of_def effects_of_def)
  from timer_fires_first [OF a b, where c = site_client and payload = fmempty and type = Event
      and res = "result_of ?x" and c' = "client_of ?x"] c
  have "result_of ?x = Inl (TimeoutError (JNum (Num 10000)))" and "Abort \<in> set (effects_of ?x)"
    by (simp_all add: site_client_timeout)
  moreover
  from timer_fires_first [OF a' b', where c = site_client and opts = fmempty
      and res = "result_of ?y" and c' = "client_of ?y"] c'
  have "result_of ?y = Inl (Other abort_error)" and "Abort \<in> set (effects_of ?y)"
    by simp_all
  ultimately show ?thesis by simp
qed

text \<open>
  The claim as written fails for the collectors: with the timer firing first,
  \<^verbatim>\<open>trackVital\<close> of a configured client aborts the request and fails with the
  \<^verbatim>\<open>AbortError\<close>, which is no timeout error and carries no duration.
\<close>

theorem collector_abort_counterexample:
  "result_of (trackVital (world_of TimerFires) site_client fmempty)
     = Inl (Other (JsError PlainError ''AbortError'' ''This operation was aborted''))
   \<and> \<not> isTimeoutError (Other (JsError PlainError ''AbortError'' ''This operation was aborted''))
   \<and> Abort \<in> set (effects_of (trackVital (world_of TimerFires) site_client fmempty))"
  using site_client_trackVital [of TimerFires fmempty]
  by (auto simp: result_of_def effects_of_def abort_error_def)

section \<open>Reading a decimal numeral\<close>

text \<open>
  \<^verbatim>\<open>parseInt(s, 10)\<close> of the decimal numeral of \<open>n\<close> is \<open>n\<close> as long as \<open>n\<close> is at most
  \<open>2^53\<close>: the model of \<^verbatim>\<open>parseInt\<close> reads what the model of number formatting writes.
  A string that starts with a character that is neither white space, a sign nor a
  digit gives \<^verbatim>\<open>NaN\<close>.
\<close>

lemma digit_cases: "d < 10 \<Longrightarrow> d \<in> {0, 1, 2, 3, 4, 5, 6, 7, 8, 9::nat}"
  by auto

lemma digit_char_props:
  assumes "d < 10"
  shows "digit_value (digit_char d) = Some d" and "\<not> is_js_space (digit_char d)"
    and "digit_char d \<noteq> CHR ''-''" and "digit_char d \<noteq> CHR ''+''"
  using digit_cases [OF assms]
  by (auto simp: digit_char_def digit_value_def is_js_space_def)

lemma show_nat_digits: "show_nat n \<noteq> [] \<and> (\<forall>c \<in> set (show_nat n). is_digit c) \<and> is_digit (hd (show_nat n))"
proof (induction n rule: show_nat.induct)
  case (1 n)
  show ?case
  proof (cases "n < 10")
    case True
    then show ?thesis
      by (simp add: show_nat.simps [of n] is_digit_def digit_char_props)
  next
    case False
    with 1 show ?thesis
      by (simp add: show_nat.simps [of n] is_digit_def digit_char_props)
  qed
qed

lemma digits_value_snoc:
  "digits_value (ds @ [c]) = 10 * digits_value ds + (case digit_value c of Some d \<Rightarrow> d | None \<Rightarrow> 0)"
  by (simp add: digits_value_def)

lemma digits_value_show_nat: "digits_value (show_nat n) = n"
proof (induction n rule: show_nat.induct)
  case (1 n)
  show ?case
  proof (cases "n < 10")
    case True
    then show ?thesis
      by (simp add: show_nat.simps [of n] digits_value_def digit_char_props)
  next
    case False
    with 1 show ?thesis
      by (simp add: show_nat.simps [of n] digits_value_snoc digit_char_props)
  qed
qed

lemma parseInt10_show_nat:
  assumes "n \<le> 9007199254740992"
  shows "parseInt10 (show_nat n) = Num (of_nat n)"
proof -
  obtain c r where cr: "show_nat n = c # r"
    using show_nat_digits [of n] by (cases "show_nat n") auto
  have c: "is_digit c" "\<forall>x \<in> set r. is_digit x"
    using show_nat_digits [of n] by (simp_all add: cr)
  have "\<not> is_js_space c" "c \<noteq> CHR ''-''" "c \<noteq> CHR ''+''"
    using c(1) by (auto simp: is_digit_def digit_value_def is_js_space_def split: if_splits)
  then have "parseInt10 (c # r) = number_of_digits False (digits_value (c # r))"
    using c by (simp add: parseInt10_def Let_def takeWhile_eq_all_conv [THEN iffD2])
  then show ?thesis
    using assms by (simp add: cr [symmetric] digits_value_show_nat number_of_digits_def)
qed

lemma parseInt10_no_number:
  assumes "\<not> is_js_space c" and "c \<noteq> CHR ''-''" and "c \<noteq> CHR ''+''" and "\<not> is_digit c"
  shows "parseInt10 (c # r) = NaN"
  using assms by (simp add: parseInt10_def Let_def)

section \<open>Responses that are not ok\<close>

text \<open>
  Claim C2, as the code has it. When the request of a call of \<^verbatim>\<open>send\<close> receives a
  response that is not ok: with status 429 the call fails with a rate-limit error;
  the error carries no retry-after value when the \<^verbatim>\<open>Retry-After\<close> header is absent or
  empty, and \<^verbatim>\<open>parseInt(header, 10)\<close> otherwise: for the decimal numeral of an \<open>n\<close> up
  to \<open>2^53\<close> that is \<open>n\<close> (beyond \<open>2^53\<close> it is the double that the integer is rounded
  to, which need not be the integer), and for a header that starts with a character
  that is neither white space, a sign nor a digit it is \<^verbatim>\<open>NaN\<close>. With any other
  status, the call fails with an API error that carries the status, the response, and
  as body the result of \<^verbatim>\<open>json()\<close> when that resolves, or the result of \<^verbatim>\<open>text()\<close> when
  \<^verbatim>\<open>json()\<close> rejects and \<^verbatim>\<open>text()\<close> then resolves.
\<close>

theorem send_not_ok:
  assumes "send w c payload type = (res, c', fx)" and "Fetch req \<in> set fx"
    and "network w req = Resolves r" and "\<not> ok r"
  shows "(status r = 429 \<longrightarrow>
            res = Inl (RateLimitError ''Rate limit exceeded''
                    (case headers_get r ''Retry-After'' of
                       None \<Rightarrow> JUndefined
                     | Some h \<Rightarrow> if h = [] then JUndefined else JNum (parseInt10 h))))
       \<and> (status r = 429 \<and> headers_get r ''Retry-After'' = Some (show_nat n)
             \<and> n \<le> 9007199254740992 \<longrightarrow>
            res = Inl (RateLimitError ''Rate limit exceeded'' (JNum (Num (of_nat n)))))
       \<and> (status r = 429 \<and> headers_get r ''Retry-After'' = Some (ch # rest)
             \<and> \<not> is_js_space ch \<and> ch \<noteq> CHR ''-'' \<and> ch \<noteq> CHR ''+'' \<and> \<not> is_digit ch \<longrightarrow>
            res = Inl (RateLimitError ''Rate limit exceeded'' (JNum NaN)))
       \<and> (status r \<noteq> 429 \<longrightarrow>
            (\<forall>v. json_result r = Inr v \<longrightarrow>
               res = Inl (ApiError (http_error_message (status r)) (status r) r v))
          \<and> (\<forall>e t. json_result r = Inl e \<and> text_result r = Inr t \<longrightarrow>
               res = Inl (ApiError (http_error_message (status r)) (status r) r (JStr t))))"
proof -
  from send_outcome [OF assms(1,2)] assms(3)
  have res: "res = (case send_check r of Inl e \<Rightarrow> Inl (send_catch (send_timeout c) e) | Inr r' \<Rightarrow> Inr r')"
    by simp
  show ?thesis
    unfolding res using assms(4) show_nat_digits [of n]
    by (auto simp: send_check_def Let_def parseInt10_show_nat parseInt10_no_number
        split: option.splits)
qed

theorem send_not_ok_witness:
  "result_of (send (world_of (Resolves (response_of False 429 (Some ''30'') (Inl syntax_error) (Inr ''slow down''))))
      site_client fmempty Event)
     = Inl (RateLimitError ''Rate limit exceeded'' (JNum (Num 30)))
   \<and> result_of (send (world_of (Resolves (response_of False 500 None (Inr JNull) (Inr ''null''))))
      site_client fmempty Event)
     = Inl (ApiError ''HTTP error! status: 500'' 500
             (response_of False 500 None (Inr JNull) (Inr ''null'')) JNull)
   \<and> result_of (send (world_of (Resolves (response_of False 500 None (Inl syntax_error) (Inr ''oops''))))
      site_client fmempty Event)
     = Inl (ApiError ''HTTP error! status: 500'' 500
             (response_of False 500 None (Inl syntax_error) (Inr ''oops'')) (JStr ''oops''))
   \<and> result_of (send (world_of (Resolves (response_of False 429 (Some ''Fri, 31 Dec'') (Inr JNull) (Inr ''null''))))
      site_client fmempty Event)
     = Inl (RateLimitError ''Rate limit exceeded'' (JNum NaN))"
proof -
  let ?r1 = "response_of False 429 (Some ''30'') (Inl syntax_error) (Inr ''slow down'')"
  let ?r2 = "response_of False 500 None (Inr JNull) (Inr ''null'')"
  let ?r3 = "response_of False 500 None (Inl syntax_error) (Inr ''oops'')"
  let ?r4 = "response_of False 429 (Some ''Fri, 31 Dec'') (Inr JNull) (Inr ''null'')"
  have split: "\<And>x. x = (result_of x, client_of x, effects_of x)"
    by (simp add: result_of_def client_of_def effects_of_def)
  have fetched: "\<And>r. Fetch (send_request (world_of (Resolves r)) site_client fmempty Event)
      \<in> set (effects_of (send (world_of (Resolves r)) site_client fmempty Event))"
    by (simp add: site_client_send effects_of_def)
  have ok: "\<not> ok ?r1" "\<not> ok ?r2" "\<not> ok ?r3" "\<not> ok ?r4"
    by (simp_all add: response_of_def)
  note w1 = send_not_ok [OF split fetched network_world_of ok(1)]
    and w2 = send_not_ok [OF split fetched network_world_of ok(2)]
    and w3 = send_not_ok [OF split fetched network_world_of ok(3)]
    and w4 = send_not_ok [OF split fetched network_world_of ok(4)]
  have "result_of (send (world_of (Resolves ?r1)) site_client fmempty Event)
     = Inl (RateLimitError ''Rate limit exceeded'' (JNum (Num 30)))"
    using w1 [of 30] by (simp add: response_of_def show_nat_examples parseInt10_examples)
  moreover have "result_of (send (world_of (Resolves ?r2)) site_client fmempty Event)
     = Inl (ApiError ''HTTP error! status: 500'' 500 ?r2 JNull)"
    using w2 by (simp add: response_of_def http_error_message_def show_nat_examples)
  moreover have "result_of (send (world_of (Resolves ?r3)) site_client fmempty Event)
     = Inl (ApiError ''HTTP error! status: 500'' 500 ?r3 (JStr ''oops''))"
    using w3 by (simp add: response_of_def http_error_message_def show_nat_examples)
  moreover have "result_of (send (world_of (Resolves ?r4)) site_client fmempty Event)
     = Inl (RateLimitError ''Rate limit exceeded'' (JNum NaN))"
    using w4 [where ch = "CHR ''F''" and rest = "''ri, 31 Dec''" and n = 0]
    by (simp add: response_of_def is_js_space_def is_digit_def digit_value_def
        parseInt10_no_number)
  ultimately show ?thesis by simp
qed

text \<open>
  The claim as written fails in two places. A 429 response whose \<^verbatim>\<open>Retry-After\<close>
  header is \<^verbatim>\<open>soon\<close> (present, not parseable) gives a rate-limit error that carries
  \<^verbatim>\<open>NaN\<close>, not no value. A 500 response on which \<^verbatim>\<open>json()\<close> rejects and \<^verbatim>\<open>text()\<close>
  rejects too (the body was consumed by \<^verbatim>\<open>json()\<close>) gives a network error, not an API
  error.
\<close>

theorem send_not_ok_counterexample:
  "result_of (send (world_of (Resolves (response_of False 429 (Some ''soon'') (Inl syntax_error) (Inr ''''))))
      site_client fmempty Event)
     = Inl (RateLimitError ''Rate limit exceeded'' (JNum NaN))
   \<and> result_of (send (world_of (Resolves (response_of False 500 None (Inl syntax_error) (Inl body_used))))
      site_client fmempty Event)
     = Inl (NetworkError ''Network request failed: Body is unusable: Body has already been read''
             (JsError TypeErrorClass ''TypeError'' ''Body is unusable: Body has already been read''))"
  by (simp add: site_client_send result_of_def send_check_def response_of_def Let_def
      parseInt10_examples body_used_def syntax_error_def)

text \<open>
  Claim C6. When the request of a call of \<^verbatim>\<open>trackVital\<close> receives a response that is
  not ok, whatever its status, 429 included, the call fails with an API error that
  carries the status (and the response, and no body); it is no rate-limit error.
\<close>

theorem trackVital_not_ok:
  assumes "trackVital w c opts = (res, c', fx)" and "Fetch req \<in> set fx"
    and "network w req = Resolves r" and "\<not> ok r"
  shows "res = Inl (ApiError (http_error_message (status r)) (status r) r JUndefined)
       \<and> error_statusCode (ApiError (http_error_message (status r)) (status r) r JUndefined) = Some (status r)
       \<and> \<not> isRateLimitError (ApiError (http_error_message (status r)) (status r) r JUndefined)"
proof -
  have "(res, c', fx) = trackVital w c opts \<or> (res, c', fx) = trackVitalsBatch w c opts
         \<or> (res, c', fx) = trackForm w c opts \<or> (res, c', fx) = trackFormBatch w c opts"
    using assms(1) by simp
  from collector_outcome [OF this refl assms(2)] assms(3,4)
  show ?thesis by simp
qed

theorem trackVital_not_ok_witness:
  "result_of (trackVital
      (world_of (Resolves (response_of False 429 (Some ''30'') (Inl syntax_error) (Inr ''slow down''))))
      site_client fmempty)
     = Inl (ApiError ''HTTP error! status: 429'' 429
             (response_of False 429 (Some ''30'') (Inl syntax_error) (Inr ''slow down'')) JUndefined)"
proof -
  let ?r = "response_of False 429 (Some ''30'') (Inl syntax_error) (Inr ''slow down'')"
  let ?x = "trackVital (world_of (Resolves ?r)) site_client fmempty"
  have split: "?x = (result_of ?x, client_of ?x, effects_of ?x)"
    by (simp add: result_of_def client_of_def effects_of_def)
  obtain req where "Fetch req \<in> set (effects_of ?x)"
    using site_client_trackVital [of "Resolves ?r" fmempty]
    by (auto simp: effects_of_def)
  from trackVital_not_ok [OF split this network_world_of]
  show ?thesis
    by (simp add: response_of_def http_error_message_def show_nat_examples)
qed

section \<open>What send dispatches\<close>

lemma client_of_send [simp]: "client_of (send w c payload type) = c"
  by (simp add: send_def client_of_def Let_def split: prod.splits)

lemma requests_of_send:
  "requests (effects_of (send w c payload type)) =
     (if truthy (js_get (options c) ''hostUrl'') then [send_request w c payload type] else [])"
  by (cases "network w (send_request w c payload type)")
     (simp_all add: send_def effects_of_def Let_def fetch_def)

lemma payload_of_send_request [simp]: "payload_of (send_request w c payload type) = payload"
  by (simp add: payload_of_def send_request_def Let_def)

lemma payload_lookups_send:
  "payload_lookups k (effects_of (send w c payload type)) =
     (if truthy (js_get (options c) ''hostUrl'') then [on_wire payload k] else [])"
  by (simp add: payload_lookups_def requests_of_send)

lemma payload_values_send:
  "payload_values k (effects_of (send w c payload type)) =
     (if truthy (js_get (options c) ''hostUrl'') then [js_get payload k] else [])"
  by (simp add: payload_values_def requests_of_send)

lemma send_catch_no_validation:
  "\<not> isValidationError e \<Longrightarrow> \<not> isValidationError (send_catch t e)"
  by (induction t e rule: send_catch.induct) simp_all

lemma send_check_no_validation: "send_check r = Inl e \<Longrightarrow> \<not> isValidationError e"
  by (auto simp: send_check_def Let_def split: if_splits sum.splits)

lemma send_no_validation:
  assumes "result_of (send w c payload type) = Inl e"
  shows "\<not> isValidationError e"
proof (cases "truthy (js_get (options c) ''hostUrl'')")
  case False
  with assms show ?thesis
    by (auto simp: send_def result_of_def Let_def hostUrl_required_def)
next
  case True
  show ?thesis
  proof (cases "network w (send_request w c payload type)")
    case (Resolves r)
    with True assms obtain e' where "send_check r = Inl e'" and "e = send_catch (send_timeout c) e'"
      by (auto simp: send_def result_of_def Let_def fetch_def split: sum.splits)
    then show ?thesis
      using send_check_no_validation send_catch_no_validation by blast
  next
    case TimerFires
    with True assms have "e = send_catch (send_timeout c) (Other abort_error)"
      by (auto simp: send_def result_of_def Let_def fetch_def)
    then show ?thesis
      using send_catch_no_validation [of "Other abort_error"] by simp
  next
    case (Rejects x)
    with True assms have "e = send_catch (send_timeout c) (Other x)"
      by (auto simp: send_def result_of_def Let_def fetch_def)
    then show ?thesis
      using send_catch_no_validation [of "Other x"] by simp
  qed
qed

lemma session_client_options:
  "js_get (options session_client) ''websiteId'' = JStr ''site''"
  "js_get (options session_client) ''hostUrl'' = JStr ''https://h.example''"
  "js_get (options session_client) ''sessionId'' = JStr ''cfg''"
  by (simp_all add: example_defs js_get_fmadd)

section \<open>track\<close>

text \<open>
  Claim C7. With \<^verbatim>\<open>websiteId\<close> configured, \<^verbatim>\<open>track(s)\<close> and \<^verbatim>\<open>track({name: s})\<close> are the
  same call of \<^verbatim>\<open>send\<close>, with the same payload: the website, the name, and \<^verbatim>\<open>data\<close>
  undefined, so that the payload on the wire has no data property. For an options
  object and a data object \<open>d\<close>, \<^verbatim>\<open>track(o, d)\<close> dispatches \<open>d\<close> as the data of the
  payload whatever data \<open>o\<close> holds, and \<^verbatim>\<open>track(o)\<close> dispatches the data of \<open>o\<close>. The
  payloads are those of the request that reaches the network when \<^verbatim>\<open>hostUrl\<close> is
  configured.
\<close>

theorem track_payloads:
  assumes "truthy (js_get (options c) ''websiteId'')"
  shows "track w c (EventName s) JUndefined =
           send w c (fmap_of_list
             [(''website'', js_get (options c) ''websiteId''), (''name'', JStr s), (''data'', JUndefined)]) Event
       \<and> track w c (EventOptions (fmap_of_list [(''name'', JStr s)])) JUndefined =
           send w c (fmap_of_list
             [(''website'', js_get (options c) ''websiteId''), (''name'', JStr s), (''data'', JUndefined)]) Event
       \<and> payload_lookups ''data'' (effects_of (track w c (EventName s) JUndefined)) =
           (if truthy (js_get (options c) ''hostUrl'') then [None] else [])
       \<and> payload_values ''data'' (effects_of (track w c (EventOptions ev) (JObj d))) =
           (if truthy (js_get (options c) ''hostUrl'') then [JObj d] else [])
       \<and> payload_values ''data'' (effects_of (track w c (EventOptions ev) JUndefined)) =
           (if truthy (js_get (options c) ''hostUrl'') then [js_get ev ''data''] else [])"
proof -
  have eq: "fmupd ''data'' JUndefined
              (fmupd ''name'' (JStr s) (fmupd ''website'' (js_get (options c) ''websiteId'') fmempty))
          = fmupd ''website'' (js_get (options c) ''websiteId'')
              (fmupd ''name'' (JStr s) (fmupd ''data'' JUndefined fmempty))"
    by (rule fmap_ext) auto
  show ?thesis
    using assms
    by (simp add: track_def Let_def payload_values_send payload_lookups_send on_wire_def eq js_or_def)
qed

theorem track_payloads_witness:
  "track (world_of TimerFires) site_client (EventName ''click'') JUndefined =
     track (world_of TimerFires) site_client (EventOptions (fmap_of_list [(''name'', JStr ''click'')])) JUndefined
   \<and> payload_values ''data''
       (effects_of (track (world_of TimerFires) site_client
          (EventOptions (fmap_of_list [(''name'', JStr ''buy''), (''data'', JObj (fmap_of_list [(''a'', JNull)]))]))
          (JObj (fmap_of_list [(''b'', JBool True)]))))
     = [JObj (fmap_of_list [(''b'', JBool True)])]
   \<and> payload_values ''data''
       (effects_of (track (world_of TimerFires) site_client
          (EventOptions (fmap_of_list [(''name'', JStr ''buy''), (''data'', JObj (fmap_of_list [(''a'', JNull)]))]))
          JUndefined))
     = [JObj (fmap_of_list [(''a'', JNull)])]"
  using track_payloads [where c = site_client and w = "world_of TimerFires" and s = "''click''"
      and ev = "fmap_of_list [(''name'', JStr ''buy''), (''data'', JObj (fmap_of_list [(''a'', JNull)]))]"
      and d = "fmap_of_list [(''b'', JBool True)]"]
  by (simp add: site_client_websiteId site_client_hostUrl)

text \<open>
  Claim C9, as the code has it. With \<^verbatim>\<open>websiteId\<close> configured, \<^verbatim>\<open>track\<close> with an options
  object whose \<^verbatim>\<open>name\<close> is absent or empty never fails with a validation error, and
  the payload carries the \<^verbatim>\<open>name\<close> property exactly as the options object has it:
  none when the object has none, the empty name when the object has the empty name.
\<close>

theorem track_without_name:
  assumes "truthy (js_get (options c) ''websiteId'')" and "\<not> truthy (js_get ev ''name'')"
  shows "(\<forall>e. result_of (track w c (EventOptions ev) eventData) = Inl e \<longrightarrow> \<not> isValidationError e)
       \<and> payload_lookups ''name'' (effects_of (track w c (EventOptions ev) eventData)) =
           (if truthy (js_get (options c) ''hostUrl'') then [on_wire ev ''name''] else [])"
  using assms(1)
  by (auto simp: track_def Let_def payload_lookups_send on_wire_def dest: send_no_validation)

theorem track_without_name_witness:
  "payload_lookups ''name''
     (effects_of (track (world_of TimerFires) site_client
        (EventOptions (fmap_of_list [(''url'', JStr ''/checkout'')])) JUndefined)) = [None]
   \<and> result_of (track (world_of TimerFires) site_client
        (EventOptions (fmap_of_list [(''url'', JStr ''/checkout'')])) JUndefined)
      = Inl (TimeoutError (JNum (Num 10000)))"
proof -
  have "result_of (track (world_of TimerFires) site_client
        (EventOptions (fmap_of_list [(''url'', JStr ''/checkout'')])) JUndefined)
      = Inl (TimeoutError (JNum (Num 10000)))"
    by (simp add: track_def Let_def site_client_websiteId site_client_send result_of_def)
  then show ?thesis
    using track_without_name [where c = site_client and w = "world_of TimerFires"
      and ev = "fmap_of_list [(''url'', JStr ''/checkout'')]" and eventData = JUndefined]
    by (simp add: site_client_websiteId site_client_hostUrl on_wire_def)
qed

text \<open>
  The claim as written fails for an empty name: the payload of \<^verbatim>\<open>track({name: ''})\<close>
  has a \<^verbatim>\<open>name\<close> property, the empty string.
\<close>

theorem track_empty_name_counterexample:
  "payload_lookups ''name''
     (effects_of (track (world_of TimerFires) site_client
        (EventOptions (fmap_of_list [(''name'', JStr '''')])) JUndefined)) = [Some (JStr '''')]"
  by (simp add: track_def Let_def site_client_websiteId site_client_hostUrl payload_lookups_send
      on_wire_def)

section \<open>identify\<close>

lemma identify_unfold:
  "truthy (js_get (options c) ''websiteId'') \<Longrightarrow>
   identify w c props =
     send w (c\<lparr>properties := properties c ++\<^sub>f props\<rparr>)
       (fmap_of_list
          [(''website'', js_get (options c) ''websiteId''),
           (''session'', js_or (js_get props ''sessionId'') (js_get (options c) ''sessionId'')),
           (''data'', JObj (properties c ++\<^sub>f props))])
       Identify"
  by (simp add: identify_def Let_def)

lemma client_of_identify:
  "client_of (identify w c props) =
     (if truthy (js_get (options c) ''websiteId'') then c\<lparr>properties := properties c ++\<^sub>f props\<rparr> else c)"
  by (simp add: identify_unfold) (simp add: identify_def client_of_def Let_def)

text \<open>
  Claim C8, as the code has it. With \<^verbatim>\<open>websiteId\<close> configured, \<^verbatim>\<open>identify(props)\<close>
  merges \<open>props\<close> into the property bag, a key of \<open>props\<close> winning over the same key
  of the bag; it changes nothing else of the client, the configured session id
  included; the data of the payload is the whole bag after the merge; and the
  session of the payload is \<^verbatim>\<open>props.sessionId\<close> when that is non-empty (truthy), and
  the configured session id otherwise, so also when \<open>props\<close> holds an empty
  \<^verbatim>\<open>sessionId\<close>.
\<close>

theorem identify_merges:
  assumes "truthy (js_get (options c) ''websiteId'')"
  shows "client_of (identify w c props) = c\<lparr>properties := properties c ++\<^sub>f props\<rparr>
       \<and> fmlookup (properties (client_of (identify w c props))) k =
           (if k |\<in>| fmdom props then fmlookup props k else fmlookup (properties c) k)
       \<and> options (client_of (identify w c props)) = options c
       \<and> payload_values ''data'' (effects_of (identify w c props)) =
           (if truthy (js_get (options c) ''hostUrl'')
            then [JObj (properties (client_of (identify w c props)))] else [])
       \<and> payload_values ''session'' (effects_of (identify w c props)) =
           (if truthy (js_get (options c) ''hostUrl'')
            then [if truthy (js_get props ''sessionId'') then js_get props ''sessionId''
                  else js_get (options c) ''sessionId'']
            else [])"
  using assms
  by (simp add: client_of_identify) (simp add: identify_unfold payload_values_send js_or_def)

theorem identify_merges_witness:
  "payload_values ''session''
     (effects_of (identify (world_of TimerFires) session_client
        (fmap_of_list [(''sessionId'', JStr ''s1''), (''plan'', JStr ''pro'')]))) = [JStr ''s1'']
   \<and> payload_values ''data''
     (effects_of (identify (world_of TimerFires) session_client
        (fmap_of_list [(''sessionId'', JStr ''s1''), (''plan'', JStr ''pro'')])))
     = [JObj (properties (client_of (identify (world_of TimerFires) session_client
        (fmap_of_list [(''sessionId'', JStr ''s1''), (''plan'', JStr ''pro'')]))))]
   \<and> fmlookup (properties (client_of (identify (world_of TimerFires) session_client
        (fmap_of_list [(''sessionId'', JStr ''s1''), (''plan'', JStr ''pro'')])))) ''plan''
     = Some (JStr ''pro'')
   \<and> js_get (options (client_of (identify (world_of TimerFires) session_client
        (fmap_of_list [(''sessionId'', JStr ''s1''), (''plan'', JStr ''pro'')])))) ''sessionId''
     = JStr ''cfg''"
  using identify_merges [where c = session_client and w = "world_of TimerFires"
      and props = "fmap_of_list [(''sessionId'', JStr ''s1''), (''plan'', JStr ''pro'')]"
      and k = "''plan''"]
  by (simp add: session_client_options)

text \<open>
  The claim as written fails when \<open>props\<close> holds an empty \<^verbatim>\<open>sessionId\<close>: the key is
  present, and the session of the payload is the configured one.
\<close>

theorem identify_empty_session_counterexample:
  "fmlookup (fmap_of_list [(''sessionId'', JStr '''')]) ''sessionId'' = Some (JStr '''')
   \<and> payload_values ''session''
       (effects_of (identify (world_of TimerFires) session_client
          (fmap_of_list [(''sessionId'', JStr '''')]))) = [JStr ''cfg'']"
  by (simp add: identify_unfold session_client_options payload_values_send js_or_def)

section \<open>The session id in the property bag\<close>

lemma client_of_calls [simp]:
  "client_of (trackPageView w c opts) = c"
  "client_of (trackEvent w c opts) = c"
  "client_of (track w c event eventData) = c"
  "client_of (collect w c hostUrl path payload) = c"
  by (simp_all add: trackPageView_def trackEvent_def track_def Let_def split: track_event.splits)
     (simp_all add: client_of_def collect_def split: prod.splits)

lemma client_of_collectors [simp]:
  "client_of (trackVital w c opts) = c"
  "client_of (trackVitalsBatch w c opts) = c"
  "client_of (trackForm w c opts) = c"
  "client_of (trackFormBatch w c opts) = c"
  by (simp_all add: trackVital_def trackVitalsBatch_def trackForm_def trackFormBatch_def Let_def
      split: jsval.splits)
     (simp_all add: client_of_def)

lemma on_wire_None:
  "on_wire m k = None \<longleftrightarrow> fmlookup m k = None \<or> fmlookup m k = Some JUndefined"
  by (auto simp: on_wire_def split: option.splits jsval.splits)

lemma on_wire_fmadd:
  "on_wire (m ++\<^sub>f n) k = (if k |\<in>| fmdom n then on_wire n k else on_wire m k)"
  by (simp add: on_wire_def)

lemma data_lookups_identify:
  "data_lookups k (effects_of (identify w c props)) =
     (if truthy (js_get (options c) ''websiteId'') \<and> truthy (js_get (options c) ''hostUrl'')
      then [on_wire (properties c ++\<^sub>f props) k] else [])"
proof (cases "truthy (js_get (options c) ''websiteId'')")
  case True
  then show ?thesis
    by (simp add: identify_unfold data_lookups_def requests_of_send)
next
  case False
  then show ?thesis
    by (simp add: identify_def Let_def effects_of_def data_lookups_def)
qed

lemma perform_keeps_on_wire:
  assumes "\<not> unsets k x" and "on_wire (properties c) k \<noteq> None"
  shows "on_wire (properties (perform w c x)) k \<noteq> None"
  using assms client_of_calls [unfolded client_of_def] client_of_collectors [unfolded client_of_def]
    client_of_send [unfolded client_of_def] client_of_identify [unfolded client_of_def]
  by (cases x)
     (auto simp: init_def setProperty_def setProperties_def clearProperty_def reset_def
        setDeployment_def Let_def on_wire_None fmlookup_dom_iff)

lemma perform_all_keeps_on_wire:
  assumes "\<forall>x \<in> set xs. \<not> unsets k x" and "on_wire (properties c) k \<noteq> None"
  shows "on_wire (properties (perform_all w c xs)) k \<noteq> None"
  using assms
proof (induction xs arbitrary: c)
  case Nil
  then show ?case by simp
next
  case (Cons x xs)
  from Cons.prems(1) have x: "\<not> unsets k x" and rest: "\<forall>y \<in> set xs. \<not> unsets k y"
    by simp_all
  from x Cons.prems(2) have "on_wire (properties (perform w c x)) k \<noteq> None"
    by (rule perform_keeps_on_wire)
  with rest have "on_wire (properties (perform_all w (perform w c x) xs)) k \<noteq> None"
    by (rule Cons.IH)
  then show ?case by simp
qed

text \<open>
  Claim C10, as the code has it. With \<^verbatim>\<open>websiteId\<close> configured, a call
  \<^verbatim>\<open>identify(props)\<close> whose \<open>props\<close> has a \<^verbatim>\<open>sessionId\<close> key with a value other than
  \<^verbatim>\<open>undefined\<close> stores that key with that value in the property bag, and the data of
  the payload of this call has the \<^verbatim>\<open>sessionId\<close> entry on the wire. After any further
  calls of the public methods, none of which removes the key (\<^verbatim>\<open>reset()\<close>,
  \<^verbatim>\<open>clearProperty('sessionId')\<close>) or gives it the value \<^verbatim>\<open>undefined\<close> (\<^verbatim>\<open>setProperty\<close>,
  \<^verbatim>\<open>setProperties\<close>, \<^verbatim>\<open>identify\<close>), the bag still has a \<^verbatim>\<open>sessionId\<close> with a value, and
  the data of the payload of any later \<^verbatim>\<open>identify\<close> that does not itself give the
  key the value \<^verbatim>\<open>undefined\<close> has the entry on the wire. The session of that payload
  does not come from the bag: it is computed from the argument and the configured
  session id.
\<close>

theorem identify_stores_sessionId:
  assumes "truthy (js_get (options c) ''websiteId'')"
    and "fmlookup props ''sessionId'' = Some v" and "v \<noteq> JUndefined"
    and "\<forall>x \<in> set later. \<not> unsets ''sessionId'' x"
    and "fmlookup props' ''sessionId'' \<noteq> Some JUndefined"
  shows "fmlookup (properties (client_of (identify w c props))) ''sessionId'' = Some v
       \<and> data_lookups ''sessionId'' (effects_of (identify w c props)) =
           (if truthy (js_get (options c) ''hostUrl'') then [Some v] else [])
       \<and> on_wire (properties (perform_all w' (client_of (identify w c props)) later)) ''sessionId'' \<noteq> None
       \<and> data_lookups ''sessionId''
           (effects_of (identify w'' (perform_all w' (client_of (identify w c props)) later) props')) =
           (if truthy (js_get (options (perform_all w' (client_of (identify w c props)) later)) ''websiteId'')
             \<and> truthy (js_get (options (perform_all w' (client_of (identify w c props)) later)) ''hostUrl'')
            then [on_wire (properties (perform_all w' (client_of (identify w c props)) later) ++\<^sub>f props')
                    ''sessionId'']
            else [])
       \<and> on_wire (properties (perform_all w' (client_of (identify w c props)) later) ++\<^sub>f props')
            ''sessionId'' \<noteq> None
       \<and> payload_values ''session''
           (effects_of (identify w'' (perform_all w' (client_of (identify w c props)) later) props')) =
           (if truthy (js_get (options (perform_all w' (client_of (identify w c props)) later)) ''websiteId'')
             \<and> truthy (js_get (options (perform_all w' (client_of (identify w c props)) later)) ''hostUrl'')
            then [js_or (js_get props' ''sessionId'')
                    (js_get (options (perform_all w' (client_of (identify w c props)) later)) ''sessionId'')]
            else [])"
proof -
  let ?c1 = "client_of (identify w c props)"
  let ?c2 = "perform_all w' ?c1 later"
  have dom: "''sessionId'' |\<in>| fmdom props"
    using assms(2) by (rule fmdomI)
  have c1: "?c1 = c\<lparr>properties := properties c ++\<^sub>f props\<rparr>"
    using assms(1) by (simp add: client_of_identify)
  have stored: "fmlookup (properties ?c1) ''sessionId'' = Some v"
    using assms(2) dom by (simp add: c1)
  have wire1: "on_wire (properties c ++\<^sub>f props) ''sessionId'' = Some v"
    using assms(2,3) dom by (cases v) (simp_all add: on_wire_def)
  have this_call: "data_lookups ''sessionId'' (effects_of (identify w c props)) =
           (if truthy (js_get (options c) ''hostUrl'') then [Some v] else [])"
    using assms(1) by (simp add: data_lookups_identify wire1)
  have in1: "on_wire (properties ?c1) ''sessionId'' \<noteq> None"
    using wire1 by (simp add: c1)
  have in2: "on_wire (properties ?c2) ''sessionId'' \<noteq> None"
    using assms(4) in1 by (rule perform_all_keeps_on_wire)
  have in3: "on_wire (properties ?c2 ++\<^sub>f props') ''sessionId'' \<noteq> None"
    using in2 assms(5) by (auto simp: on_wire_None fmlookup_dom_iff)
  have session: "payload_values ''session'' (effects_of (identify w'' ?c2 props')) =
           (if truthy (js_get (options ?c2) ''websiteId'') \<and> truthy (js_get (options ?c2) ''hostUrl'')
            then [js_or (js_get props' ''sessionId'') (js_get (options ?c2) ''sessionId'')] else [])"
  proof (cases "truthy (js_get (options ?c2) ''websiteId'')")
    case True
    then show ?thesis by (simp add: identify_unfold payload_values_send)
  next
    case False
    then show ?thesis by (simp add: identify_def Let_def effects_of_def payload_values_def)
  qed
  show ?thesis
    using stored this_call in2 in3 session data_lookups_identify [of "''sessionId''" w'' ?c2 props']
    by simp
qed

theorem identify_stores_sessionId_witness:
  "fmlookup (properties (client_of (identify (world_of TimerFires) session_client
       (fmap_of_list [(''sessionId'', JStr ''s1'')])))) ''sessionId'' = Some (JStr ''s1'')
   \<and> data_lookups ''sessionId'' (effects_of (identify (world_of TimerFires) session_client
       (fmap_of_list [(''sessionId'', JStr ''s1'')]))) = [Some (JStr ''s1'')]
   \<and> on_wire (properties (perform_all (world_of TimerFires)
       (client_of (identify (world_of TimerFires) session_client (fmap_of_list [(''sessionId'', JStr ''s1'')])))
       [CallSetProperty ''plan'' (JStr ''pro''), CallClearProperty ''plan'', CallIdentify fmempty]))
       ''sessionId'' \<noteq> None"
  using identify_stores_sessionId [where c = session_client and w = "world_of TimerFires"
      and w' = "world_of TimerFires" and w'' = "world_of TimerFires"
      and props = "fmap_of_list [(''sessionId'', JStr ''s1'')]" and v = "JStr ''s1''"
      and props' = fmempty
      and later = "[CallSetProperty ''plan'' (JStr ''pro''), CallClearProperty ''plan'', CallIdentify fmempty]"]
  by (simp add: session_client_options)

text \<open>
  The claim as written fails on a configured client in two ways. \<^verbatim>\<open>identify\<close> with
  \<^verbatim>\<open>{sessionId: undefined}\<close> puts the key into the bag, and the data of its payload
  has no \<^verbatim>\<open>sessionId\<close> entry on the wire. And after \<^verbatim>\<open>identify({sessionId: 's1'})\<close>, with
  no \<^verbatim>\<open>reset()\<close> and no \<^verbatim>\<open>clearProperty\<close> in between, a later
  \<^verbatim>\<open>identify({sessionId: undefined})\<close> sends data without the entry as well.
\<close>

theorem identify_undefined_session_counterexample:
  "''sessionId'' |\<in>| fmdom (fmap_of_list [(''sessionId'', JUndefined)])
   \<and> ''sessionId'' |\<in>| fmdom (properties (client_of (identify (world_of TimerFires) session_client
        (fmap_of_list [(''sessionId'', JUndefined)]))))
   \<and> data_lookups ''sessionId'' (effects_of (identify (world_of TimerFires) session_client
        (fmap_of_list [(''sessionId'', JUndefined)]))) = [None]
   \<and> data_lookups ''sessionId'' (effects_of (identify (world_of TimerFires)
        (client_of (identify (world_of TimerFires) session_client
           (fmap_of_list [(''sessionId'', JStr ''s1'')])))
        (fmap_of_list [(''sessionId'', JUndefined)]))) = [None]"
  by (simp add: data_lookups_identify client_of_identify session_client_options on_wire_def)

end
